theory Spec2Isabelle
  imports Main "HOL-Library.Word"
begin

unbundle bit_operations_syntax

section \<open>The containerssh webhooks of envd-server\<close>

text \<open>
  A shallow embedding of \<^verbatim>\<open>pkg/server/containerssh.go\<close>: the two gin handlers
  \<^verbatim>\<open>OnConfig\<close> and \<^verbatim>\<open>OnPubKey\<close> that containerssh calls to route a connection
  and to authenticate a public key.

  A handler calls \<^verbatim>\<open>c.JSON(code, obj)\<close> exactly once on every path and returns
  nothing; the model returns the arguments of that call, together with the server
  the method was called on (the receiver is a pointer, so the server after the call
  is part of the result). The calls to logrus only write log lines and are left out.
\<close>

subsection \<open>Data\<close>

type_synonym byte = "8 word"

text \<open>
  Go's \<^verbatim>\<open>error\<close> values. \<^verbatim>\<open>ErrNoRows\<close> is the sentinel \<^verbatim>\<open>pgx.ErrNoRows\<close> the
  handler tests for; \<^verbatim>\<open>MalformedIdentity\<close> is the error of the username codec;
  \<^verbatim>\<open>Err\<close> is any other error, by its message; \<^verbatim>\<open>Wrap\<close> is an error wrapping its
  cause. Which errors count as \<^verbatim>\<open>pgx.ErrNoRows\<close> is decided by \<^verbatim>\<open>errors.Is\<close>, not
  by the constructor.
\<close>

datatype error =
    MalformedIdentity
  | ErrNoRows
  | Err string
  | Wrap string error

text \<open>
  The structs of libcontainerssh, with the fields the handlers read or set; every
  other field of a value the handlers build keeps Go's zero value. The requests are
  record schemes: the fields the handlers never read are the record's extension.
\<close>

record config_Request =
  Username :: string

record auth_PublicKeyAuthRequest =
  auth_Username :: string
  PublicKey :: string

record config_SSHProxyConfig =
  Server :: string
  Port :: "16 word"
  proxy_Username :: string
  AllowedHostKeyFingerprints :: "string list"

record config_AppConfig =
  Backend :: string
  SSHProxy :: config_SSHProxyConfig

record config_ResponseBody =
  Config :: config_AppConfig

record auth_ResponseBody =
  Success :: bool

text \<open>The row of the users table that \<^verbatim>\<open>Queries.GetUser\<close> returns.\<close>

record User =
  user_PublicKey :: "byte list"

text \<open>
  An \<^verbatim>\<open>ssh.PublicKey\<close>: the handler only calls its method \<^verbatim>\<open>Marshal\<close>, the key in
  its wire format.
\<close>

record ssh_PublicKey =
  Marshal :: "byte list"

text \<open>
  The server: its query interface (\<^verbatim>\<open>s.Queries.GetUser(ctx, loginName)\<close>) and the
  host-key fingerprints it was started with.
\<close>

record Server =
  Queries_GetUser :: "string \<Rightarrow> error + User"
  serverFingerPrints :: "string list"

text \<open>
  The \<^verbatim>\<open>gin.Context\<close> of a call: \<^verbatim>\<open>c.BindJSON(&req)\<close> gives the request the body
  decodes to, or the error of decoding it.
\<close>

record 'req gin_Context =
  BindJSON :: "error + 'req"

text \<open>The arguments of \<^verbatim>\<open>c.JSON(code, obj)\<close>: the status code and the object serialised.\<close>

datatype body =
    ErrorBody error
  | StringBody string
  | ConfigBody config_ResponseBody
  | AuthBody auth_ResponseBody

datatype response = JSON int body

subsection \<open>crypto/subtle\<close>

text \<open>
  The two functions of Go's standard library behind \<^verbatim>\<open>subtle.ConstantTimeCompare\<close>:
  \<^verbatim>\<open>
  func ConstantTimeByteEq(x, y uint8) int {
      return int((uint32(x^y) - 1) >> 31)
  }
  func ConstantTimeCompare(x, y []byte) int {
      if len(x) != len(y) { return 0 }
      var v byte
      for i := 0; i < len(x); i++ { v |= x[i] ^ y[i] }
      return ConstantTimeByteEq(v, 0)
  }
  \<close>
\<close>

definition ConstantTimeByteEq :: "byte \<Rightarrow> byte \<Rightarrow> int" where
  "ConstantTimeByteEq x y = uint (drop_bit 31 ((ucast (x XOR y) :: 32 word) - 1))"

fun xor_loop :: "byte \<Rightarrow> byte list \<Rightarrow> byte list \<Rightarrow> byte" where
  "xor_loop v (a # x) (b # y) = xor_loop (v OR (a XOR b)) x y"
| "xor_loop v _ _ = v"

definition ConstantTimeCompare :: "byte list \<Rightarrow> byte list \<Rightarrow> int" where
  "ConstantTimeCompare x y =
     (if length x \<noteq> length y then 0 else ConstantTimeByteEq (xor_loop 0 x y) 0)"

subsection \<open>The handlers\<close>

text \<open>
  \<^verbatim>\<open>sshname.GetInfo\<close> (the username codec), \<^verbatim>\<open>errors.Is\<close> of
  \<^verbatim>\<open>github.com/cockroachdb/errors\<close> and \<^verbatim>\<open>ssh.ParseAuthorizedKey\<close> are parameters of
  the handlers: \<^verbatim>\<open>GetInfo username\<close> is the owner and the environment name, or an
  error; \<^verbatim>\<open>errors_Is err target\<close> says whether the library takes \<^verbatim>\<open>err\<close> for
  \<^verbatim>\<open>target\<close> (by identity along the chain of causes, by an \<^verbatim>\<open>Is\<close> method or by
  mark), and the handlers assume nothing about how it decides;
  \<^verbatim>\<open>ParseAuthorizedKey bytes\<close> is the key, or an error.
\<close>

definition bytes_of :: "string \<Rightarrow> byte list" where
  "bytes_of s = map of_char s"

definition OnConfig ::
  "(string \<Rightarrow> error + string \<times> string) \<Rightarrow> Server \<Rightarrow>
     ('a config_Request_scheme) gin_Context \<Rightarrow> response \<times> Server" where
  "OnConfig GetInfo s c =
     (case BindJSON c of
        Inl err \<Rightarrow> (JSON 500 (ErrorBody err), s)
      | Inr req \<Rightarrow>
         (case GetInfo (Username req) of
            Inl err \<Rightarrow> (JSON 500 (ErrorBody err), s)
          | Inr (_, name) \<Rightarrow>
              let cfg = \<lparr>Backend = ''sshproxy'',
                         SSHProxy = \<lparr>Server = name, Port = 2222, proxy_Username = ''envd'',
                                     AllowedHostKeyFingerprints = []\<rparr>\<rparr>;
                  fingerprints = serverFingerPrints s;
                  cfg = cfg\<lparr>SSHProxy := (SSHProxy cfg)\<lparr>AllowedHostKeyFingerprints := fingerprints\<rparr>\<rparr>;
                  res = \<lparr>Config = cfg\<rparr>
              in (JSON 200 (ConfigBody res), s)))"

definition OnPubKey ::
  "(string \<Rightarrow> error + string \<times> string) \<Rightarrow> (error \<Rightarrow> error \<Rightarrow> bool) \<Rightarrow>
     (byte list \<Rightarrow> error + ssh_PublicKey) \<Rightarrow> Server \<Rightarrow>
     ('a auth_PublicKeyAuthRequest_scheme) gin_Context \<Rightarrow> response \<times> Server" where
  "OnPubKey GetInfo errors_Is ParseAuthorizedKey s c =
     (case BindJSON c of
        Inl err \<Rightarrow> (JSON 500 (ErrorBody err), s)
      | Inr req \<Rightarrow>
         (case GetInfo (auth_Username req) of
            Inl err \<Rightarrow> (JSON 500 (ErrorBody err), s)
          | Inr (owner, _) \<Rightarrow>
             (case Queries_GetUser s owner of
                Inl err \<Rightarrow>
                  if errors_Is err ErrNoRows
                  then (JSON 500 (StringBody ''user not found''), s)
                  else (JSON 500 (StringBody ''Internal error''), s)
              | Inr user \<Rightarrow>
                 (case ParseAuthorizedKey (bytes_of (PublicKey req)) of
                    Inl err \<Rightarrow> (JSON 500 (ErrorBody err), s)
                  | Inr key \<Rightarrow>
                      if ConstantTimeCompare (Marshal key) (user_PublicKey user) = 1
                      then (JSON 200 (AuthBody \<lparr>Success = True\<rparr>), s)
                      else (JSON 200 (AuthBody \<lparr>Success = False\<rparr>), s)))))"

subsection \<open>The username codec\<close>

text \<open>
  Modelled from the spec: \<^verbatim>\<open>sshname.GetInfo\<close>, the package \<^verbatim>\<open>sshname\<close> of this
  repository that the handlers import, is not among the sources. The spec's words
  (section 4.1 and section 8): the username is \<^verbatim>\<open>owner#target\<close>, an owner segment and
  a target segment separated by a fixed delimiter; a string without exactly one
  delimiter, or with an empty owner or target segment, fails with
  \<^verbatim>\<open>MalformedIdentity\<close>; a valid encoding decodes to its two segments exactly.
\<close>

definition delimiter :: char where
  "delimiter = CHR ''#''"

definition GetInfo :: "string \<Rightarrow> error + string \<times> string" where
  "GetInfo username =
     (let owner = takeWhile (\<lambda>ch. ch \<noteq> delimiter) username;
          target = tl (dropWhile (\<lambda>ch. ch \<noteq> delimiter) username)
      in if count_list username delimiter \<noteq> 1 \<or> owner = [] \<or> target = []
         then Inl MalformedIdentity
         else Inr (owner, target))"

subsection \<open>Concrete collaborators for the scenarios\<close>

text \<open>
  A user store with one record, for \<^verbatim>\<open>alice\<close>, whose stored key is the bytes of
  \<^verbatim>\<open>key-K\<close>; a store whose query fails; a stand-in key parser that rejects the
  empty input and otherwise marshals a key to the bytes it was given; a stand-in for
  \<^verbatim>\<open>errors.Is\<close> that takes an error for the target only when it is the target
  itself; and a second one that, as the library's match by mark does, also takes a
  fresh error reading \<^verbatim>\<open>no rows in result set\<close> for \<^verbatim>\<open>pgx.ErrNoRows\<close>. The
  stand-ins are used in the scenarios alone: every general statement holds for any
  parser and any \<^verbatim>\<open>errors.Is\<close>.
\<close>

definition alice_store :: "string \<Rightarrow> error + User" where
  "alice_store loginName =
     (if loginName = ''alice'' then Inr \<lparr>user_PublicKey = bytes_of ''key-K''\<rparr> else Inl ErrNoRows)"

definition broken_store :: "string \<Rightarrow> error + User" where
  "broken_store loginName = Inl (Wrap ''db query failed'' (Err ''connection refused''))"

definition parse_stub :: "byte list \<Rightarrow> error + ssh_PublicKey" where
  "parse_stub bs = (if bs = [] then Inl (Err ''ssh: no key found'') else Inr \<lparr>Marshal = bs\<rparr>)"

definition Is_stub :: "error \<Rightarrow> error \<Rightarrow> bool" where
  "Is_stub err target = (err = target)"

definition Is_mark_stub :: "error \<Rightarrow> error \<Rightarrow> bool" where
  "Is_mark_stub err target =
     (err = target \<or> (err = Err ''no rows in result set'' \<and> target = ErrNoRows))"

definition envd_server :: Server where
  "envd_server = \<lparr>Queries_GetUser = alice_store, serverFingerPrints = [''SHA256:fp1'', ''SHA256:fp2'']\<rparr>"

definition config_call :: "string \<Rightarrow> config_Request gin_Context" where
  "config_call username = \<lparr>BindJSON = Inr \<lparr>Username = username\<rparr>\<rparr>"

definition pubkey_call :: "string \<Rightarrow> string \<Rightarrow> auth_PublicKeyAuthRequest gin_Context" where
  "pubkey_call username key = \<lparr>BindJSON = Inr \<lparr>auth_Username = username, PublicKey = key\<rparr>\<rparr>"

section \<open>Properties\<close>

subsection \<open>The constant-time comparison decides equality\<close>

lemma byte_xor_zero: "(x :: byte) XOR y = 0 \<longleftrightarrow> x = y"
  by (metis bit.xor_left_self xor.right_neutral)

lemma uint_drop_bit_31: "uint (drop_bit 31 (w :: 32 word)) = uint w div 2 ^ 31"
  by (simp add: drop_bit_eq_div uint_div)

lemma uint_ucast_byte: "uint (ucast (d :: byte) :: 32 word) = uint d"
  by (simp add: uint_up_ucast is_up)

lemma byte_pos: "(w :: byte) \<noteq> 0 \<Longrightarrow> 0 < uint w"
  by (metis unsigned_0 word_less_iff_unsigned word_greater_zero_iff)

lemma ConstantTimeByteEq_uint:
  "ConstantTimeByteEq x y = ((uint (x XOR y) - 1) mod 2 ^ 32) div 2 ^ 31"
  by (simp add: ConstantTimeByteEq_def uint_drop_bit_31 uint_ucast_byte uint_word_ariths)

lemma ConstantTimeByteEq_iff: "ConstantTimeByteEq x y = 1 \<longleftrightarrow> x = y"
proof (cases "x = y")
  case True
  then show ?thesis by (simp add: ConstantTimeByteEq_uint)
next
  case False
  define d where "d = uint (x XOR y)"
  from False have "x XOR y \<noteq> 0" by (simp add: byte_xor_zero)
  then have pos: "0 < d" unfolding d_def by (rule byte_pos)
  have lt: "d < 256" using uint_lt2p [of "x XOR y"] by (simp add: d_def)
  have "((d - 1) mod 2 ^ 32) div 2 ^ 31 = 0" using pos lt by simp
  with False show ?thesis by (simp add: ConstantTimeByteEq_uint d_def)
qed

lemma xor_loop_zero:
  "length x = length y \<Longrightarrow> xor_loop v x y = 0 \<longleftrightarrow> v = 0 \<and> x = y"
proof (induction v x y rule: xor_loop.induct)
  case (1 v a x b y)
  then show ?case by (auto simp: or_eq_0_iff byte_xor_zero)
qed auto

lemma ConstantTimeCompare_iff: "ConstantTimeCompare x y = 1 \<longleftrightarrow> x = y"
  by (auto simp: ConstantTimeCompare_def ConstantTimeByteEq_iff xor_loop_zero)

subsection \<open>The codec's segments\<close>

lemma count_list_0: "count_list xs x = 0 \<longleftrightarrow> x \<notin> set xs"
  by (induction xs) auto

lemma takeWhile_delim: "d \<notin> set xs \<Longrightarrow> takeWhile (\<lambda>ch. ch \<noteq> d) (xs @ d # ys) = xs"
  by (induction xs) auto

lemma dropWhile_delim: "d \<notin> set xs \<Longrightarrow> dropWhile (\<lambda>ch. ch \<noteq> d) (xs @ d # ys) = d # ys"
  by (induction xs) auto

lemma GetInfo_valid:
  assumes "owner \<noteq> []" "target \<noteq> []" "delimiter \<notin> set owner" "delimiter \<notin> set target"
  shows "GetInfo (owner @ delimiter # target) = Inr (owner, target)"
proof -
  have c: "count_list (owner @ delimiter # target) delimiter = 1"
    using assms by (simp add: count_list_0)
  have t: "takeWhile (\<lambda>ch. ch \<noteq> delimiter) (owner @ delimiter # target) = owner"
    using assms by (simp add: takeWhile_delim)
  have d: "dropWhile (\<lambda>ch. ch \<noteq> delimiter) (owner @ delimiter # target) = delimiter # target"
    using assms by (simp add: dropWhile_delim)
  show ?thesis using assms by (simp add: GetInfo_def c t d)
qed

lemma GetInfo_Inr_D:
  assumes r: "GetInfo u = Inr (owner, target)"
  shows "u = owner @ delimiter # target \<and> owner \<noteq> [] \<and> target \<noteq> [] \<and>
     delimiter \<notin> set owner \<and> delimiter \<notin> set target"
proof -
  let ?P = "\<lambda>ch. ch \<noteq> delimiter"
  from r have c: "count_list u delimiter = 1"
    and o: "owner = takeWhile ?P u" and t: "target = tl (dropWhile ?P u)"
    and ne: "owner \<noteq> []" "target \<noteq> []"
    by (auto simp: GetInfo_def Let_def split: if_splits)
  from ne t have dne: "dropWhile ?P u \<noteq> []" by (metis list.sel(2))
  then have hd: "hd (dropWhile ?P u) = delimiter"
    using hd_dropWhile [of ?P u] by simp
  with dne t have d: "dropWhile ?P u = delimiter # target"
    by (cases "dropWhile ?P u") auto
  have u: "u = owner @ delimiter # target"
    using takeWhile_dropWhile_id [of ?P u] o d by simp
  have no: "delimiter \<notin> set owner"
    using o by (auto dest: set_takeWhileD)
  have "count_list u delimiter = count_list owner delimiter + 1 + count_list target delimiter"
    by (subst u) simp
  with c have "count_list target delimiter = 0" by simp
  then have "delimiter \<notin> set target" by (simp add: count_list_0)
  with u ne no show ?thesis by simp
qed

lemma GetInfo_Inl: "GetInfo u = Inl e \<Longrightarrow> e = MalformedIdentity"
  by (auto simp: GetInfo_def Let_def split: if_splits)

lemma GetInfo_count: "count_list u delimiter \<noteq> 1 \<Longrightarrow> GetInfo u = Inl MalformedIdentity"
  by (simp add: GetInfo_def Let_def)

subsection \<open>Decoding the username\<close>

text \<open>
  C3: a string \<^verbatim>\<open>owner#target\<close> whose two segments are non-empty and hold no
  delimiter decodes to exactly \<^verbatim>\<open>(owner, target)\<close>; a string with no delimiter, with
  more than one delimiter, with an empty owner segment (it starts with the delimiter)
  or with an empty target segment (it ends with the delimiter) fails with
  \<^verbatim>\<open>MalformedIdentity\<close>. Conversely a successful decoding only comes from such a
  string, and \<^verbatim>\<open>MalformedIdentity\<close> is the only error: nothing is defaulted.
\<close>

theorem GetInfo_grammar:
  "(owner \<noteq> [] \<and> target \<noteq> [] \<and> delimiter \<notin> set owner \<and> delimiter \<notin> set target
      \<longrightarrow> GetInfo (owner @ delimiter # target) = Inr (owner, target)) \<and>
   (count_list u delimiter = 0 \<longrightarrow> GetInfo u = Inl MalformedIdentity) \<and>
   (1 < count_list u delimiter \<longrightarrow> GetInfo u = Inl MalformedIdentity) \<and>
   GetInfo (delimiter # rest) = Inl MalformedIdentity \<and>
   GetInfo (rest @ [delimiter]) = Inl MalformedIdentity \<and>
   (\<forall>ow ta. GetInfo u = Inr (ow, ta) \<longrightarrow>
      u = ow @ delimiter # ta \<and> ow \<noteq> [] \<and> ta \<noteq> [] \<and>
      delimiter \<notin> set ow \<and> delimiter \<notin> set ta) \<and>
   (\<forall>e. GetInfo u = Inl e \<longrightarrow> e = MalformedIdentity)"
proof -
  have a: "GetInfo (delimiter # rest) = Inl MalformedIdentity"
    by (simp add: GetInfo_def Let_def)
  have b: "GetInfo (rest @ [delimiter]) = Inl MalformedIdentity"
  proof (cases "delimiter \<in> set rest")
    case True
    then have "count_list rest delimiter \<noteq> 0" by (simp add: count_list_0)
    then show ?thesis by (simp add: GetInfo_def Let_def)
  next
    case False
    then have "dropWhile (\<lambda>ch. ch \<noteq> delimiter) (rest @ [delimiter]) = [delimiter]"
      by (simp add: dropWhile_delim)
    then show ?thesis by (simp add: GetInfo_def Let_def)
  qed
  show ?thesis
    using a b by (auto simp: GetInfo_valid GetInfo_count dest: GetInfo_Inr_D GetInfo_Inl)
qed

text \<open>
  The username of the spec's scenarios decodes; the undelimited username of scenario D,
  a username with two delimiters, one with an empty owner and one with an empty target
  are rejected.
\<close>

theorem GetInfo_grammar_witness:
  "GetInfo ''alice#gpu-box-1'' = Inr (''alice'', ''gpu-box-1'') \<and>
   GetInfo ''malformed-no-delimiter'' = Inl MalformedIdentity \<and>
   GetInfo ''alice#gpu#box'' = Inl MalformedIdentity \<and>
   GetInfo ''#gpu-box-1'' = Inl MalformedIdentity \<and>
   GetInfo ''alice#'' = Inl MalformedIdentity"
  using GetInfo_grammar [of "''alice''" "''gpu-box-1''" "''malformed-no-delimiter''" "''gpu-box-1''"]
    GetInfo_grammar [of "''alice''" "''gpu-box-1''" "''alice#gpu#box''" "''alice''"]
  by (simp add: delimiter_def)

subsection \<open>Public-key verification\<close>

text \<open>
  C1: \<^verbatim>\<open>OnPubKey\<close> answers with the verdict \<^verbatim>\<open>Success = b\<close> exactly when the request
  binds, the username decodes, the owner has a user record, the candidate key parses,
  and \<^verbatim>\<open>b\<close> says whether the marshalled bytes of the parsed key are, as byte
  sequences, equal to the stored key. So the verdict is \<^verbatim>\<open>Success = True\<close> if and only
  if the two byte sequences are equal, and any difference (a changed bit, a proper
  prefix, another letter case) gives \<^verbatim>\<open>Success = False\<close>.
\<close>

theorem OnPubKey_verdict_iff:
  "fst (OnPubKey getInfo errorsIs parseKey s c) = JSON 200 (AuthBody \<lparr>Success = b\<rparr>) \<longleftrightarrow>
     (\<exists>req owner name user key.
        BindJSON c = Inr req \<and>
        getInfo (auth_Username req) = Inr (owner, name) \<and>
        Queries_GetUser s owner = Inr user \<and>
        parseKey (bytes_of (PublicKey req)) = Inr key \<and>
        b = (Marshal key = user_PublicKey user))"
  by (auto simp: OnPubKey_def ConstantTimeCompare_iff split: sum.splits prod.splits)

text \<open>
  Scenarios B and C of the spec: for \<^verbatim>\<open>alice#gpu-box-1\<close> the stored key itself is
  accepted; a key differing in one bit of its last byte, a proper prefix of the key and
  the key in upper case are rejected.
\<close>

theorem OnPubKey_verdict_iff_witness:
  "fst (OnPubKey GetInfo Is_stub parse_stub envd_server (pubkey_call ''alice#gpu-box-1'' ''key-K''))
     = JSON 200 (AuthBody \<lparr>Success = True\<rparr>) \<and>
   fst (OnPubKey GetInfo Is_stub parse_stub envd_server (pubkey_call ''alice#gpu-box-1'' ''key-J''))
     = JSON 200 (AuthBody \<lparr>Success = False\<rparr>) \<and>
   fst (OnPubKey GetInfo Is_stub parse_stub envd_server (pubkey_call ''alice#gpu-box-1'' ''key-''))
     = JSON 200 (AuthBody \<lparr>Success = False\<rparr>) \<and>
   fst (OnPubKey GetInfo Is_stub parse_stub envd_server (pubkey_call ''alice#gpu-box-1'' ''KEY-K''))
     = JSON 200 (AuthBody \<lparr>Success = False\<rparr>)"
proof -
  have g: "GetInfo ''alice#gpu-box-1'' = Inr (''alice'', ''gpu-box-1'')"
    by (simp add: GetInfo_def delimiter_def)
  have u: "Queries_GetUser envd_server ''alice'' = Inr \<lparr>user_PublicKey = bytes_of ''key-K''\<rparr>"
    by (simp add: envd_server_def alice_store_def)
  have b: "\<And>k. BindJSON (pubkey_call ''alice#gpu-box-1'' k)
      = Inr \<lparr>auth_Username = ''alice#gpu-box-1'', PublicKey = k\<rparr>"
    by (simp add: pubkey_call_def)
  show ?thesis
    using g u b
      OnPubKey_verdict_iff [of GetInfo Is_stub parse_stub envd_server "pubkey_call ''alice#gpu-box-1'' ''key-K''" True]
      OnPubKey_verdict_iff [of GetInfo Is_stub parse_stub envd_server "pubkey_call ''alice#gpu-box-1'' ''key-J''" False]
      OnPubKey_verdict_iff [of GetInfo Is_stub parse_stub envd_server "pubkey_call ''alice#gpu-box-1'' ''key-''" False]
      OnPubKey_verdict_iff [of GetInfo Is_stub parse_stub envd_server "pubkey_call ''alice#gpu-box-1'' ''KEY-K''" False]
    by (simp add: bytes_of_def parse_stub_def)
qed

text \<open>
  C4: once the request is bound, every failure on the way to the comparison ends the
  call of \<^verbatim>\<open>OnPubKey\<close> with status 500 and an error body, never with a verdict: a
  username the codec rejects answers with the codec's error; a failure of the query
  that \<^verbatim>\<open>errors.Is\<close> takes for \<^verbatim>\<open>pgx.ErrNoRows\<close> answers \<^verbatim>\<open>user not found\<close>; any
  other failure of the query answers \<^verbatim>\<open>Internal error\<close>; a candidate key that does not parse
  answers with the parser's error. An answer that carries a verdict has status 200 and
  comes from a call where the decoding, the lookup and the parsing all succeeded.
\<close>

theorem OnPubKey_errors:
  assumes "BindJSON c = Inr req"
  shows
  "(\<forall>e. getInfo (auth_Username req) = Inl e \<longrightarrow>
      OnPubKey getInfo errorsIs parseKey s c = (JSON 500 (ErrorBody e), s)) \<and>
   (\<forall>owner name e. getInfo (auth_Username req) = Inr (owner, name) \<and>
      Queries_GetUser s owner = Inl e \<and> errorsIs e ErrNoRows \<longrightarrow>
      OnPubKey getInfo errorsIs parseKey s c = (JSON 500 (StringBody ''user not found''), s)) \<and>
   (\<forall>owner name e. getInfo (auth_Username req) = Inr (owner, name) \<and>
      Queries_GetUser s owner = Inl e \<and> \<not> errorsIs e ErrNoRows \<longrightarrow>
      OnPubKey getInfo errorsIs parseKey s c = (JSON 500 (StringBody ''Internal error''), s)) \<and>
   (\<forall>owner name user e. getInfo (auth_Username req) = Inr (owner, name) \<and>
      Queries_GetUser s owner = Inr user \<and> parseKey (bytes_of (PublicKey req)) = Inl e \<longrightarrow>
      OnPubKey getInfo errorsIs parseKey s c = (JSON 500 (ErrorBody e), s)) \<and>
   (\<forall>code verdict. fst (OnPubKey getInfo errorsIs parseKey s c) = JSON code (AuthBody verdict) \<longrightarrow>
      code = 200 \<and>
      (\<exists>owner name user key. getInfo (auth_Username req) = Inr (owner, name) \<and>
         Queries_GetUser s owner = Inr user \<and> parseKey (bytes_of (PublicKey req)) = Inr key))"
  using assms by (auto simp: OnPubKey_def split: sum.splits prod.splits if_splits)

text \<open>
  Scenario D (malformed username), scenario A (no row for the owner), a store whose
  query fails, and an empty candidate key: each gives its own 500 answer. Last, a store
  whose error is not the sentinel but reads as it does, under an \<^verbatim>\<open>errors.Is\<close> that
  matches it: the answer is \<^verbatim>\<open>user not found\<close>.
\<close>

theorem OnPubKey_errors_witness:
  "OnPubKey GetInfo Is_stub parse_stub envd_server (pubkey_call ''malformed-no-delimiter'' ''key-K'')
     = (JSON 500 (ErrorBody MalformedIdentity), envd_server) \<and>
   OnPubKey GetInfo Is_stub parse_stub (envd_server\<lparr>Queries_GetUser := \<lambda>loginName. Inl ErrNoRows\<rparr>)
       (pubkey_call ''alice#gpu-box-1'' ''key-K'')
     = (JSON 500 (StringBody ''user not found''),
        envd_server\<lparr>Queries_GetUser := \<lambda>loginName. Inl ErrNoRows\<rparr>) \<and>
   OnPubKey GetInfo Is_stub parse_stub (envd_server\<lparr>Queries_GetUser := broken_store\<rparr>)
       (pubkey_call ''alice#gpu-box-1'' ''key-K'')
     = (JSON 500 (StringBody ''Internal error''), envd_server\<lparr>Queries_GetUser := broken_store\<rparr>) \<and>
   OnPubKey GetInfo Is_stub parse_stub envd_server (pubkey_call ''alice#gpu-box-1'' [])
     = (JSON 500 (ErrorBody (Err ''ssh: no key found'')), envd_server) \<and>
   OnPubKey GetInfo Is_mark_stub parse_stub
       (envd_server\<lparr>Queries_GetUser := \<lambda>loginName. Inl (Err ''no rows in result set'')\<rparr>)
       (pubkey_call ''alice#gpu-box-1'' ''key-K'')
     = (JSON 500 (StringBody ''user not found''),
        envd_server\<lparr>Queries_GetUser := \<lambda>loginName. Inl (Err ''no rows in result set'')\<rparr>)"
proof -
  have g: "GetInfo ''alice#gpu-box-1'' = Inr (''alice'', ''gpu-box-1'')"
    "GetInfo ''malformed-no-delimiter'' = Inl MalformedIdentity"
    by (simp_all add: GetInfo_def delimiter_def)
  have b: "\<And>u k. BindJSON (pubkey_call u k) = Inr \<lparr>auth_Username = u, PublicKey = k\<rparr>"
    by (simp add: pubkey_call_def)
  show ?thesis
    using g
      OnPubKey_errors [OF b [of "''malformed-no-delimiter''" "''key-K''"],
        where getInfo = GetInfo and parseKey = parse_stub and errorsIs = Is_stub and s = envd_server]
      OnPubKey_errors [OF b [of "''alice#gpu-box-1''" "''key-K''"],
        where getInfo = GetInfo and parseKey = parse_stub and errorsIs = Is_stub
          and s = "envd_server\<lparr>Queries_GetUser := \<lambda>loginName. Inl ErrNoRows\<rparr>"]
      OnPubKey_errors [OF b [of "''alice#gpu-box-1''" "''key-K''"],
        where getInfo = GetInfo and parseKey = parse_stub and errorsIs = Is_stub
          and s = "envd_server\<lparr>Queries_GetUser := broken_store\<rparr>"]
      OnPubKey_errors [OF b [of "''alice#gpu-box-1''" "[]"],
        where getInfo = GetInfo and parseKey = parse_stub and errorsIs = Is_stub and s = envd_server]
      OnPubKey_errors [OF b [of "''alice#gpu-box-1''" "''key-K''"],
        where getInfo = GetInfo and parseKey = parse_stub and errorsIs = Is_mark_stub
          and s = "envd_server\<lparr>Queries_GetUser := \<lambda>loginName. Inl (Err ''no rows in result set'')\<rparr>"]
    by (simp add: envd_server_def alice_store_def broken_store_def parse_stub_def bytes_of_def Is_stub_def Is_mark_stub_def)
qed

subsection \<open>Route resolution\<close>

text \<open>
  C5: for a bound request whose username decodes to \<^verbatim>\<open>(owner, target)\<close>,
  \<^verbatim>\<open>OnConfig\<close> answers 200 with the configuration whose backend is \<^verbatim>\<open>sshproxy\<close>,
  whose proxy server is \<^verbatim>\<open>target\<close> as decoded, whose port is 2222, whose proxy
  username is \<^verbatim>\<open>envd\<close>, and whose allowed host-key fingerprints are the server's
  fingerprints unchanged.
\<close>

theorem OnConfig_route:
  assumes "BindJSON c = Inr req" and "getInfo (Username req) = Inr (owner, target)"
  shows "OnConfig getInfo s c =
     (JSON 200 (ConfigBody \<lparr>Config =
        \<lparr>Backend = ''sshproxy'',
         SSHProxy = \<lparr>Server = target, Port = 2222, proxy_Username = ''envd'',
                     AllowedHostKeyFingerprints = serverFingerPrints s\<rparr>\<rparr>\<rparr>), s)"
  using assms by (simp add: OnConfig_def)

text \<open>
  Scenario B: \<^verbatim>\<open>alice#gpu-box-1\<close> is routed to \<^verbatim>\<open>gpu-box-1\<close>, port 2222, as
  \<^verbatim>\<open>envd\<close>, with the two fingerprints of the server.
\<close>

theorem OnConfig_route_witness:
  "BindJSON (config_call ''alice#gpu-box-1'') = Inr \<lparr>Username = ''alice#gpu-box-1''\<rparr> \<and>
   GetInfo ''alice#gpu-box-1'' = Inr (''alice'', ''gpu-box-1'') \<and>
   OnConfig GetInfo envd_server (config_call ''alice#gpu-box-1'') =
     (JSON 200 (ConfigBody \<lparr>Config =
        \<lparr>Backend = ''sshproxy'',
         SSHProxy = \<lparr>Server = ''gpu-box-1'', Port = 2222, proxy_Username = ''envd'',
                     AllowedHostKeyFingerprints = [''SHA256:fp1'', ''SHA256:fp2'']\<rparr>\<rparr>\<rparr>),
      envd_server)"
proof -
  have b: "BindJSON (config_call ''alice#gpu-box-1'') = Inr \<lparr>Username = ''alice#gpu-box-1''\<rparr>"
    by (simp add: config_call_def)
  have g: "GetInfo (Username \<lparr>Username = ''alice#gpu-box-1''\<rparr>) = Inr (''alice'', ''gpu-box-1'')"
    by (simp add: GetInfo_def delimiter_def)
  show ?thesis
    using b g OnConfig_route [where getInfo = GetInfo and s = envd_server, OF b g] by (simp add: envd_server_def)
qed

text \<open>
  C6: for a username the codec rejects with an error, both handlers answer 500 with
  that very error, \<^verbatim>\<open>OnConfig\<close> produces no configuration and \<^verbatim>\<open>OnPubKey\<close> no
  verdict.
\<close>

theorem malformed_username_fails:
  assumes "getInfo u = Inl e"
    and "BindJSON c = Inr req" and "Username req = u"
    and "BindJSON c' = Inr req'" and "auth_Username req' = u"
  shows "OnConfig getInfo s c = (JSON 500 (ErrorBody e), s) \<and>
         OnPubKey getInfo errorsIs parseKey s c' = (JSON 500 (ErrorBody e), s) \<and>
         (\<forall>code cfg. fst (OnConfig getInfo s c) \<noteq> JSON code (ConfigBody cfg)) \<and>
         (\<forall>code verdict. fst (OnPubKey getInfo errorsIs parseKey s c') \<noteq> JSON code (AuthBody verdict))"
  using assms by (simp add: OnConfig_def OnPubKey_def)

text \<open>
  Scenario D: \<^verbatim>\<open>malformed-no-delimiter\<close> fails with \<^verbatim>\<open>MalformedIdentity\<close> in both
  handlers.
\<close>

theorem malformed_username_fails_witness:
  "GetInfo ''malformed-no-delimiter'' = Inl MalformedIdentity \<and>
   OnConfig GetInfo envd_server (config_call ''malformed-no-delimiter'')
     = (JSON 500 (ErrorBody MalformedIdentity), envd_server) \<and>
   OnPubKey GetInfo Is_stub parse_stub envd_server (pubkey_call ''malformed-no-delimiter'' ''key-K'')
     = (JSON 500 (ErrorBody MalformedIdentity), envd_server)"
proof -
  have g: "GetInfo ''malformed-no-delimiter'' = Inl MalformedIdentity"
    by (simp add: GetInfo_def delimiter_def)
  have b: "BindJSON (config_call ''malformed-no-delimiter'') = Inr \<lparr>Username = ''malformed-no-delimiter''\<rparr>"
    by (simp add: config_call_def)
  have b': "BindJSON (pubkey_call ''malformed-no-delimiter'' ''key-K'')
      = Inr \<lparr>auth_Username = ''malformed-no-delimiter'', PublicKey = ''key-K''\<rparr>"
    by (simp add: pubkey_call_def)
  show ?thesis
    using g malformed_username_fails [where getInfo = GetInfo and s = envd_server and parseKey = parse_stub and errorsIs = Is_stub, OF g b _ b'] by simp
qed

text \<open>
  C7: the answer of \<^verbatim>\<open>OnConfig\<close> is a function of the request's username and the
  server's fingerprints alone. Two calls whose requests carry the same username, on
  servers with the same fingerprints, give the same answer; in particular a second call
  on the server as the first call left it gives the answer of the first.
\<close>

theorem OnConfig_deterministic:
  assumes "BindJSON c = Inr req" and "BindJSON c' = Inr req'"
    and "Username req = Username req'"
    and "serverFingerPrints s = serverFingerPrints s'"
  shows "fst (OnConfig getInfo s c) = fst (OnConfig getInfo s' c') \<and>
         fst (OnConfig getInfo (snd (OnConfig getInfo s c)) c') = fst (OnConfig getInfo s c)"
  using assms by (simp add: OnConfig_def split: sum.splits prod.splits)

text \<open>
  The same username resolved on two servers that differ in their user store only, and
  resolved twice in a row on one server.
\<close>

theorem OnConfig_deterministic_witness:
  "fst (OnConfig GetInfo envd_server (config_call ''alice#gpu-box-1''))
     = fst (OnConfig GetInfo (envd_server\<lparr>Queries_GetUser := broken_store\<rparr>)
             (config_call ''alice#gpu-box-1'')) \<and>
   fst (OnConfig GetInfo (snd (OnConfig GetInfo envd_server (config_call ''alice#gpu-box-1'')))
          (config_call ''alice#gpu-box-1''))
     = fst (OnConfig GetInfo envd_server (config_call ''alice#gpu-box-1''))"
proof -
  have b: "BindJSON (config_call ''alice#gpu-box-1'') = Inr \<lparr>Username = ''alice#gpu-box-1''\<rparr>"
    by (simp add: config_call_def)
  have f: "serverFingerPrints envd_server
      = serverFingerPrints (envd_server\<lparr>Queries_GetUser := broken_store\<rparr>)"
    by simp
  show ?thesis
    using OnConfig_deterministic [where getInfo = GetInfo, OF b b _ f] by simp
qed

text \<open>
  C8: \<^verbatim>\<open>OnConfig\<close> leaves the server as it found it, its fingerprints included,
  and the fingerprints in any configuration it answers with are the server's.
\<close>

theorem OnConfig_frame:
  "snd (OnConfig getInfo s c) = s \<and>
   serverFingerPrints (snd (OnConfig getInfo s c)) = serverFingerPrints s \<and>
   (\<forall>code res. fst (OnConfig getInfo s c) = JSON code (ConfigBody res) \<longrightarrow>
      AllowedHostKeyFingerprints (SSHProxy (Config res)) = serverFingerPrints s)"
  by (auto simp: OnConfig_def split: sum.splits prod.splits)

text \<open>
  Resolving \<^verbatim>\<open>alice#gpu-box-1\<close>: the server is unchanged and the configuration
  carries its two fingerprints.
\<close>

theorem OnConfig_frame_witness:
  "snd (OnConfig GetInfo envd_server (config_call ''alice#gpu-box-1'')) = envd_server \<and>
   fst (OnConfig GetInfo envd_server (config_call ''alice#gpu-box-1''))
     = JSON 200 (ConfigBody \<lparr>Config =
        \<lparr>Backend = ''sshproxy'',
         SSHProxy = \<lparr>Server = ''gpu-box-1'', Port = 2222, proxy_Username = ''envd'',
                     AllowedHostKeyFingerprints = [''SHA256:fp1'', ''SHA256:fp2'']\<rparr>\<rparr>\<rparr>) \<and>
   AllowedHostKeyFingerprints (SSHProxy (Config \<lparr>Config =
        \<lparr>Backend = ''sshproxy'',
         SSHProxy = \<lparr>Server = ''gpu-box-1'', Port = 2222, proxy_Username = ''envd'',
                     AllowedHostKeyFingerprints = [''SHA256:fp1'', ''SHA256:fp2'']\<rparr>\<rparr>\<rparr>))
     = serverFingerPrints envd_server"
proof -
  have r: "fst (OnConfig GetInfo envd_server (config_call ''alice#gpu-box-1''))
     = JSON 200 (ConfigBody \<lparr>Config =
        \<lparr>Backend = ''sshproxy'',
         SSHProxy = \<lparr>Server = ''gpu-box-1'', Port = 2222, proxy_Username = ''envd'',
                     AllowedHostKeyFingerprints = [''SHA256:fp1'', ''SHA256:fp2'']\<rparr>\<rparr>\<rparr>)"
    by (simp add: OnConfig_def config_call_def GetInfo_def delimiter_def envd_server_def)
  show ?thesis
    using r OnConfig_frame [of GetInfo envd_server "config_call ''alice#gpu-box-1''"]
    by (simp add: envd_server_def)
qed

text \<open>
  C9: two bound requests whose usernames decode to the same target, whatever their
  owners, get the same answer from \<^verbatim>\<open>OnConfig\<close>.
\<close>

theorem OnConfig_ignores_owner:
  assumes "BindJSON c1 = Inr req1" and "BindJSON c2 = Inr req2"
    and "getInfo (Username req1) = Inr (owner1, target)"
    and "getInfo (Username req2) = Inr (owner2, target)"
  shows "fst (OnConfig getInfo s c1) = fst (OnConfig getInfo s c2)"
  using assms by (simp add: OnConfig_def)

text \<open>
  \<^verbatim>\<open>alice#gpu-box-1\<close> and \<^verbatim>\<open>bob#gpu-box-1\<close> are routed alike.
\<close>

theorem OnConfig_ignores_owner_witness:
  "GetInfo ''alice#gpu-box-1'' = Inr (''alice'', ''gpu-box-1'') \<and>
   GetInfo ''bob#gpu-box-1'' = Inr (''bob'', ''gpu-box-1'') \<and>
   fst (OnConfig GetInfo envd_server (config_call ''alice#gpu-box-1''))
     = fst (OnConfig GetInfo envd_server (config_call ''bob#gpu-box-1''))"
proof -
  have b: "\<And>u. BindJSON (config_call u) = Inr \<lparr>Username = u\<rparr>"
    by (simp add: config_call_def)
  have g1: "GetInfo (Username \<lparr>Username = ''alice#gpu-box-1''\<rparr>) = Inr (''alice'', ''gpu-box-1'')"
   and g2: "GetInfo (Username \<lparr>Username = ''bob#gpu-box-1''\<rparr>) = Inr (''bob'', ''gpu-box-1'')"
    by (simp_all add: GetInfo_def delimiter_def)
  show ?thesis
    using g1 g2 OnConfig_ignores_owner [where getInfo = GetInfo and s = envd_server, OF b b g1 g2] by simp
qed

subsection \<open>The verdict and the target\<close>

text \<open>
  C10: two bound requests whose usernames decode to the same owner, whatever their
  targets, and that offer the same key, get the same answer from \<^verbatim>\<open>OnPubKey\<close> on
  the same server with the same key parser.
\<close>

theorem OnPubKey_ignores_target:
  assumes "BindJSON c1 = Inr req1" and "BindJSON c2 = Inr req2"
    and "getInfo (auth_Username req1) = Inr (owner, target1)"
    and "getInfo (auth_Username req2) = Inr (owner, target2)"
    and "PublicKey req1 = PublicKey req2"
  shows "fst (OnPubKey getInfo errorsIs parseKey s c1) = fst (OnPubKey getInfo errorsIs parseKey s c2)"
  using assms by (simp add: OnPubKey_def split: sum.splits)

text \<open>
  \<^verbatim>\<open>alice#gpu-box-1\<close> and \<^verbatim>\<open>alice#cpu-box-2\<close> with the same key get the same
  verdict.
\<close>

theorem OnPubKey_ignores_target_witness:
  "GetInfo ''alice#gpu-box-1'' = Inr (''alice'', ''gpu-box-1'') \<and>
   GetInfo ''alice#cpu-box-2'' = Inr (''alice'', ''cpu-box-2'') \<and>
   fst (OnPubKey GetInfo Is_stub parse_stub envd_server (pubkey_call ''alice#gpu-box-1'' ''key-K''))
     = fst (OnPubKey GetInfo Is_stub parse_stub envd_server (pubkey_call ''alice#cpu-box-2'' ''key-K''))"
proof -
  have b: "\<And>u k. BindJSON (pubkey_call u k) = Inr \<lparr>auth_Username = u, PublicKey = k\<rparr>"
    by (simp add: pubkey_call_def)
  have g1: "GetInfo (auth_Username \<lparr>auth_Username = ''alice#gpu-box-1'', PublicKey = ''key-K''\<rparr>)
      = Inr (''alice'', ''gpu-box-1'')"
   and g2: "GetInfo (auth_Username \<lparr>auth_Username = ''alice#cpu-box-2'', PublicKey = ''key-K''\<rparr>)
      = Inr (''alice'', ''cpu-box-2'')"
    by (simp_all add: GetInfo_def delimiter_def)
  show ?thesis
    using g1 g2 OnPubKey_ignores_target [where getInfo = GetInfo and s = envd_server and parseKey = parse_stub and errorsIs = Is_stub, OF b b g1 g2] by simp
qed

end
